theory Spec2Isabelle
  imports Main "HOL-Library.Sublist"
begin

section \<open>The entity store\<close>

text \<open>
  The tables of the initial schema migration, restricted to the columns that the request
  functions read or write. A \<open>uuid\<close> is an abstract identifier. Every column kept here is
  declared \<open>NOT NULL\<close> in the schema except \<open>requests.message\<close> and the two \<open>jsonb\<close> columns
  of \<open>property_history\<close>. A table is the list of its rows in insertion order.

  Of \<open>profiles\<close> only the primary key is kept, as the list of the ids of its rows: the
  foreign keys of \<open>requests\<close> and \<open>property_history\<close> into \<open>profiles\<close> and
  \<open>properties\<close> are checked when a row is inserted. The \<open>updated_at\<close> triggers and the
  notification trigger on \<open>requests\<close> (which swallows its own errors) touch none of the
  modelled columns.
\<close>

type_synonym uuid = nat

datatype property_status = Available | Requested | Sold | Withdrawn

datatype request_status = Pending | Accepted | Declined | Cancelled

record property_row =
  prop_id :: uuid
  prop_seller_id :: uuid
  prop_status :: property_status

record request_row =
  req_id :: uuid
  req_buyer_id :: uuid
  req_property_id :: uuid
  req_seller_id :: uuid
  req_message :: "string option"
  req_status :: request_status

datatype jsonb_value = JText string | JUuid uuid

type_synonym jsonb = "(string \<times> jsonb_value) list"

record history_row =
  hist_property_id :: uuid
  hist_user_id :: uuid
  hist_action :: string
  hist_old_values :: "jsonb option"
  hist_new_values :: "jsonb option"

record store =
  profiles :: "uuid list"
  properties :: "property_row list"
  requests :: "request_row list"
  property_history :: "history_row list"

text \<open>The enum labels, as \<open>RAISE\<close> formats them into a message with \<open>%\<close>.\<close>

fun property_status_label :: "property_status \<Rightarrow> string" where
  "property_status_label Available = ''available''"
| "property_status_label Requested = ''requested''"
| "property_status_label Sold = ''sold''"
| "property_status_label Withdrawn = ''withdrawn''"

fun request_status_label :: "request_status \<Rightarrow> string" where
  "request_status_label Pending = ''pending''"
| "request_status_label Accepted = ''accepted''"
| "request_status_label Declined = ''declined''"
| "request_status_label Cancelled = ''cancelled''"

section \<open>SQL values and exceptions\<close>

text \<open>
  A function argument may be \<open>NULL\<close> (none of the three functions is \<open>STRICT\<close>), so an
  argument of SQL type \<open>t\<close> is a \<open>t option\<close> with \<open>None\<close> for \<open>NULL\<close>. A comparison with a
  \<open>NULL\<close> operand is \<open>NULL\<close>, and \<open>IF\<close> takes its branch only when the condition is true.
\<close>

definition sql_eq :: "'a option \<Rightarrow> 'a option \<Rightarrow> bool option" where
  "sql_eq a b = (case a of None \<Rightarrow> None | Some x \<Rightarrow> (case b of None \<Rightarrow> None | Some y \<Rightarrow> Some (x = y)))"

definition sql_ne :: "'a option \<Rightarrow> 'a option \<Rightarrow> bool option" where
  "sql_ne a b = (case a of None \<Rightarrow> None | Some x \<Rightarrow> (case b of None \<Rightarrow> None | Some y \<Rightarrow> Some (x \<noteq> y)))"

text \<open>\<open>a NOT IN (v1, ..., vn)\<close> for non-null list elements.\<close>

definition sql_not_in :: "'a option \<Rightarrow> 'a list \<Rightarrow> bool option" where
  "sql_not_in a vs = (case a of None \<Rightarrow> None | Some x \<Rightarrow> Some (x \<notin> set vs))"

definition sql_if :: "bool option \<Rightarrow> bool" where
  "sql_if c = (c = Some True)"

text \<open>An exception carries its SQLSTATE and its message. The constraint violations that
  the server itself raises carry the server's wording (without its quotation marks).\<close>

datatype exception = Exception (errcode: string) (errmsg: string)

type_synonym 'a result = "exception + 'a"

definition not_null_violation :: "string \<Rightarrow> string \<Rightarrow> exception" where
  "not_null_violation col rel =
     Exception ''23502'' (''null value in column '' @ col @ '' of relation '' @ rel
       @ '' violates not-null constraint'')"

definition unique_violation :: "string \<Rightarrow> exception" where
  "unique_violation idx =
     Exception ''23505'' (''duplicate key value violates unique constraint '' @ idx)"

definition foreign_key_violation :: "string \<Rightarrow> string \<Rightarrow> exception" where
  "foreign_key_violation rel con =
     Exception ''23503'' (''insert or update on table '' @ rel
       @ '' violates foreign key constraint '' @ con)"

section \<open>Statements of the request functions\<close>

text \<open>\<open>SELECT ... INTO ... FROM properties WHERE id = p FOR UPDATE\<close>: the first matching
  row, or \<open>NOT FOUND\<close>. With a \<open>NULL\<close> key no row matches.\<close>

definition select_property :: "uuid option \<Rightarrow> property_row list \<Rightarrow> property_row option" where
  "select_property p rows =
     (case p of None \<Rightarrow> None | Some i \<Rightarrow> find (\<lambda>r. prop_id r = i) rows)"

definition select_request :: "uuid option \<Rightarrow> request_row list \<Rightarrow> request_row option" where
  "select_request p rows =
     (case p of None \<Rightarrow> None | Some i \<Rightarrow> find (\<lambda>r. req_id r = i) rows)"

text \<open>\<open>UPDATE properties SET status = st WHERE id = p\<close>.\<close>

definition update_property_status ::
  "uuid option \<Rightarrow> property_status \<Rightarrow> property_row list \<Rightarrow> property_row list" where
  "update_property_status p st rows =
     map (\<lambda>r. if sql_if (sql_eq (Some (prop_id r)) p) then r\<lparr>prop_status := st\<rparr> else r) rows"

text \<open>The partial unique index \<open>idx_requests_buyer_pending_unique\<close> on
  \<open>requests(buyer_id) WHERE status = 'pending'\<close>: a row version with status \<open>pending\<close>
  conflicts with another pending row of the same buyer.\<close>

definition buyer_has_pending :: "uuid \<Rightarrow> request_row list \<Rightarrow> bool" where
  "buyer_has_pending b rows = (\<exists>r \<in> set rows. req_buyer_id r = b \<and> req_status r = Pending)"

text \<open>\<open>DEFAULT gen_random_uuid()\<close> for the primary key: an identifier that no row of the
  table has.\<close>

definition gen_random_uuid :: "request_row list \<Rightarrow> uuid" where
  "gen_random_uuid rows = Suc (fold max (map req_id rows) 0)"

text \<open>\<open>INSERT INTO requests (buyer_id, property_id, seller_id, message, status)
  VALUES (...) RETURNING id\<close>: the not-null constraints are checked before the row reaches
  the index; the foreign keys (\<open>buyer_id\<close> and \<open>seller_id\<close> into \<open>profiles\<close>,
  \<open>property_id\<close> into \<open>properties\<close>) are checked at the end of the statement.\<close>

definition insert_request ::
  "uuid option \<Rightarrow> uuid option \<Rightarrow> uuid option \<Rightarrow> string option \<Rightarrow> request_status option
     \<Rightarrow> store \<Rightarrow> (request_row list \<times> uuid) result" where
  "insert_request buyer property seller msg st s =
     (case (buyer, property, seller, st) of
        (None, _, _, _) \<Rightarrow> Inl (not_null_violation ''buyer_id'' ''requests'')
      | (Some b, None, _, _) \<Rightarrow> Inl (not_null_violation ''property_id'' ''requests'')
      | (Some b, Some p, None, _) \<Rightarrow> Inl (not_null_violation ''seller_id'' ''requests'')
      | (Some b, Some p, Some sl, None) \<Rightarrow> Inl (not_null_violation ''status'' ''requests'')
      | (Some b, Some p, Some sl, Some stv) \<Rightarrow>
          if stv = Pending \<and> buyer_has_pending b (requests s)
          then Inl (unique_violation ''idx_requests_buyer_pending_unique'')
          else if b \<notin> set (profiles s)
          then Inl (foreign_key_violation ''requests'' ''requests_buyer_id_fkey'')
          else if p \<notin> prop_id ` set (properties s)
          then Inl (foreign_key_violation ''requests'' ''requests_property_id_fkey'')
          else if sl \<notin> set (profiles s)
          then Inl (foreign_key_violation ''requests'' ''requests_seller_id_fkey'')
          else let new_id = gen_random_uuid (requests s) in
            Inr (requests s @ [\<lparr>req_id = new_id, req_buyer_id = b, req_property_id = p,
                                 req_seller_id = sl, req_message = msg, req_status = stv\<rparr>],
                 new_id))"

text \<open>\<open>UPDATE requests SET status = st WHERE id = p\<close>. A \<open>NULL\<close> status violates the
  not-null constraint when a row matches; a row set to \<open>pending\<close> is checked against the
  pending rows of the same buyer with another id.\<close>

definition set_request_status ::
  "uuid option \<Rightarrow> request_status \<Rightarrow> request_row list \<Rightarrow> request_row list" where
  "set_request_status p st rows =
     map (\<lambda>r. if sql_if (sql_eq (Some (req_id r)) p) then r\<lparr>req_status := st\<rparr> else r) rows"

definition update_request_status ::
  "uuid option \<Rightarrow> request_status option \<Rightarrow> request_row list \<Rightarrow> (request_row list) result" where
  "update_request_status p st rows =
     (let hit = (\<lambda>r. sql_if (sql_eq (Some (req_id r)) p)) in
      if \<not> (\<exists>r \<in> set rows. hit r) then Inr rows
      else case st of
        None \<Rightarrow> Inl (not_null_violation ''status'' ''requests'')
      | Some stv \<Rightarrow>
          if stv = Pending \<and>
             (\<exists>r \<in> set rows. hit r \<and> buyer_has_pending (req_buyer_id r) (filter (\<lambda>q. \<not> hit q) rows))
          then Inl (unique_violation ''idx_requests_buyer_pending_unique'')
          else Inr (set_request_status p stv rows))"

text \<open>\<open>INSERT INTO property_history (property_id, user_id, action, old_values, new_values)\<close>,
  with the foreign keys of \<open>property_id\<close> into \<open>properties\<close> and of \<open>user_id\<close> into
  \<open>profiles\<close>.\<close>

definition insert_property_history ::
  "uuid option \<Rightarrow> uuid option \<Rightarrow> string \<Rightarrow> jsonb option \<Rightarrow> jsonb option
     \<Rightarrow> store \<Rightarrow> (history_row list) result" where
  "insert_property_history property usr action old_values new_values s =
     (case (property, usr) of
        (None, _) \<Rightarrow> Inl (not_null_violation ''property_id'' ''property_history'')
      | (Some p, None) \<Rightarrow> Inl (not_null_violation ''user_id'' ''property_history'')
      | (Some p, Some u) \<Rightarrow>
          if p \<notin> prop_id ` set (properties s)
          then Inl (foreign_key_violation ''property_history'' ''property_history_property_id_fkey'')
          else if u \<notin> set (profiles s)
          then Inl (foreign_key_violation ''property_history'' ''property_history_user_id_fkey'')
          else Inr (property_history s @
                 [\<lparr>hist_property_id = p, hist_user_id = u, hist_action = action,
                   hist_old_values = old_values, hist_new_values = new_values\<rparr>]))"

text \<open>A function call is one statement: when it raises, every write it made is undone.
  The function bodies below return the store as it stands when they raise or return;
  \<open>transaction\<close> gives the store after the call.\<close>

definition transaction :: "(store \<Rightarrow> store \<times> 'a result) \<Rightarrow> store \<Rightarrow> store \<times> 'a result" where
  "transaction body s =
     (case body s of (s', Inl e) \<Rightarrow> (s, Inl e) | (s', Inr v) \<Rightarrow> (s', Inr v))"

section \<open>The request functions\<close>

subsection \<open>\<open>create_request\<close>\<close>

definition property_not_found :: exception where
  "property_not_found = Exception ''P0002'' ''Property not found''"

definition property_not_available :: "property_status \<Rightarrow> exception" where
  "property_not_available st =
     Exception ''P0001'' (''Property is not available (current status: ''
       @ property_status_label st @ '')'')"

definition self_request_forbidden :: exception where
  "self_request_forbidden = Exception ''P0003'' ''Sellers cannot request their own properties''"

definition duplicate_pending_request :: exception where
  "duplicate_pending_request = Exception ''23505''
     ''Buyer has an active pending request. Please wait for the current request to be processed.''"

definition create_request_body ::
  "uuid option \<Rightarrow> uuid option \<Rightarrow> string option \<Rightarrow> store \<Rightarrow> store \<times> uuid result" where
  "create_request_body p_buyer p_property p_message s =
     (case select_property p_property (properties s) of
        None \<Rightarrow> (s, Inl property_not_found)
      | Some row \<Rightarrow>
          let v_property_status = prop_status row; v_seller_id = prop_seller_id row in
          if sql_if (sql_ne (Some v_property_status) (Some Available))
          then (s, Inl (property_not_available v_property_status))
          else if sql_if (sql_eq (Some v_seller_id) p_buyer)
          then (s, Inl self_request_forbidden)
          else
            (case insert_request p_buyer p_property (Some v_seller_id) p_message (Some Pending)
                    s of
               Inl e \<Rightarrow>
                 if errcode e = ''23505'' then (s, Inl duplicate_pending_request) else (s, Inl e)
             | Inr (rows', v_request_id) \<Rightarrow>
                 let s1 = s\<lparr>requests := rows'\<rparr>;
                     s2 = s1\<lparr>properties :=
                            update_property_status p_property Requested (properties s1)\<rparr>
                 in (case insert_property_history p_property p_buyer ''request_created''
                            (Some [(''status'', JText ''available'')])
                            (Some [(''status'', JText ''requested''),
                                   (''request_id'', JUuid v_request_id)])
                            s2 of
                       Inl e \<Rightarrow> (s2, Inl e)
                     | Inr hist' \<Rightarrow> (s2\<lparr>property_history := hist'\<rparr>, Inr v_request_id))))"

definition create_request ::
  "uuid option \<Rightarrow> uuid option \<Rightarrow> string option \<Rightarrow> store \<Rightarrow> store \<times> uuid result" where
  "create_request p_buyer p_property p_message = transaction (create_request_body p_buyer p_property p_message)"

subsection \<open>\<open>cancel_request\<close>\<close>

definition request_not_found :: exception where
  "request_not_found = Exception ''P0002'' ''Request not found''"

definition only_buyer_can_cancel :: exception where
  "only_buyer_can_cancel = Exception ''P0004'' ''Only the buyer can cancel their request''"

definition only_pending_cancelled :: "request_status \<Rightarrow> exception" where
  "only_pending_cancelled st =
     Exception ''P0001'' (''Only pending requests can be cancelled (current status: ''
       @ request_status_label st @ '')'')"

definition cancel_request_body :: "uuid option \<Rightarrow> uuid option \<Rightarrow> store \<Rightarrow> store \<times> bool result" where
  "cancel_request_body p_request_id p_user_id s =
     (case select_request p_request_id (requests s) of
        None \<Rightarrow> (s, Inl request_not_found)
      | Some row \<Rightarrow>
          let v_buyer_id = req_buyer_id row; v_property_id = req_property_id row;
              v_status = req_status row in
          if sql_if (sql_ne (Some v_buyer_id) p_user_id)
          then (s, Inl only_buyer_can_cancel)
          else if sql_if (sql_ne (Some v_status) (Some Pending))
          then (s, Inl (only_pending_cancelled v_status))
          else
            (case update_request_status p_request_id (Some Cancelled) (requests s) of
               Inl e \<Rightarrow> (s, Inl e)
             | Inr rows' \<Rightarrow>
                 let s1 = s\<lparr>requests := rows'\<rparr>;
                     s2 = s1\<lparr>properties :=
                            update_property_status (Some v_property_id) Available (properties s1)\<rparr>
                 in (s2, Inr True)))"

definition cancel_request :: "uuid option \<Rightarrow> uuid option \<Rightarrow> store \<Rightarrow> store \<times> bool result" where
  "cancel_request p_request_id p_user_id = transaction (cancel_request_body p_request_id p_user_id)"

subsection \<open>\<open>respond_to_request\<close>\<close>

definition invalid_response :: exception where
  "invalid_response = Exception ''P0005'' ''Invalid response. Must be accepted or declined''"

definition only_seller_can_respond :: exception where
  "only_seller_can_respond = Exception ''P0004'' ''Only the seller can respond to this request''"

definition only_pending_responded :: "request_status \<Rightarrow> exception" where
  "only_pending_responded st =
     Exception ''P0001'' (''Only pending requests can be responded to (current status: ''
       @ request_status_label st @ '')'')"

definition respond_to_request_body ::
  "uuid option \<Rightarrow> uuid option \<Rightarrow> request_status option \<Rightarrow> store \<Rightarrow> store \<times> bool result" where
  "respond_to_request_body p_request_id p_user_id p_response s =
     (if sql_if (sql_not_in p_response [Accepted, Declined])
      then (s, Inl invalid_response)
      else
        (case select_request p_request_id (requests s) of
           None \<Rightarrow> (s, Inl request_not_found)
         | Some row \<Rightarrow>
             let v_seller_id = req_seller_id row; v_property_id = req_property_id row;
                 v_status = req_status row in
             if sql_if (sql_ne (Some v_seller_id) p_user_id)
             then (s, Inl only_seller_can_respond)
             else if sql_if (sql_ne (Some v_status) (Some Pending))
             then (s, Inl (only_pending_responded v_status))
             else
               (case update_request_status p_request_id p_response (requests s) of
                  Inl e \<Rightarrow> (s, Inl e)
                | Inr rows' \<Rightarrow>
                    let s1 = s\<lparr>requests := rows'\<rparr>;
                        s2 = (if sql_if (sql_eq p_response (Some Accepted))
                              then s1\<lparr>properties :=
                                     update_property_status (Some v_property_id) Sold (properties s1)\<rparr>
                              else if sql_if (sql_eq p_response (Some Declined))
                              then s1\<lparr>properties :=
                                     update_property_status (Some v_property_id) Available (properties s1)\<rparr>
                              else s1)
                    in (s2, Inr True))))"

definition respond_to_request ::
  "uuid option \<Rightarrow> uuid option \<Rightarrow> request_status option \<Rightarrow> store \<Rightarrow> store \<times> bool result" where
  "respond_to_request p_request_id p_user_id p_response =
     transaction (respond_to_request_body p_request_id p_user_id p_response)"

section \<open>Sequences of calls\<close>

text \<open>A call of one of the three functions, and the store it leaves behind.\<close>

datatype call =
    CreateRequest "uuid option" "uuid option" "string option"
  | CancelRequest "uuid option" "uuid option"
  | RespondToRequest "uuid option" "uuid option" "request_status option"

fun perform :: "call \<Rightarrow> store \<Rightarrow> store" where
  "perform (CreateRequest b p m) s = fst (create_request b p m s)"
| "perform (CancelRequest r u) s = fst (cancel_request r u s)"
| "perform (RespondToRequest r u d) s = fst (respond_to_request r u d s)"



section \<open>Replaying the audit history\<close>

text \<open>The status that a history row records under the key \<open>status\<close> of \<open>new_values\<close>,
  read back as a \<open>property_status\<close>.\<close>

fun property_status_of_label :: "string \<Rightarrow> property_status option" where
  "property_status_of_label l =
     (if l = ''available'' then Some Available
      else if l = ''requested'' then Some Requested
      else if l = ''sold'' then Some Sold
      else if l = ''withdrawn'' then Some Withdrawn
      else None)"

definition recorded_status :: "jsonb option \<Rightarrow> property_status option" where
  "recorded_status v =
     (case v of None \<Rightarrow> None
      | Some obj \<Rightarrow> (case map_of obj ''status'' of
                       Some (JText l) \<Rightarrow> property_status_of_label l
                     | _ \<Rightarrow> None))"

text \<open>Replay as the specification words it: start from the initial status of the property
  and apply, in order, the new value of every history row of that property.\<close>

definition replay_history :: "uuid \<Rightarrow> property_status \<Rightarrow> history_row list \<Rightarrow> property_status" where
  "replay_history p initial hist =
     fold (\<lambda>h st. if hist_property_id h = p
                   then (case recorded_status (hist_new_values h) of Some st' \<Rightarrow> st' | None \<Rightarrow> st)
                   else st) hist initial"

section \<open>Row level security: direct updates by an authenticated client\<close>










section \<open>The client functions \<open>createRequest\<close> and \<open>cancelRequest\<close>\<close>

text \<open>The error classes of the client module; \<open>Error\<close> is the generic JavaScript error,
  the other three are its subclasses declared there.\<close>

datatype client_error =
    PropertyNotAvailableError
  | ActivePendingRequestError string
  | NetworkError string
  | Error string

fun client_error_message :: "client_error \<Rightarrow> string" where
  "client_error_message PropertyNotAvailableError = ''Property is no longer available''"
| "client_error_message (ActivePendingRequestError m) = m"
| "client_error_message (NetworkError m) = m"
| "client_error_message (Error m) = m"

text \<open>The \<open>error\<close> object of an RPC response: the SQLSTATE as \<open>code\<close> and the message.\<close>

datatype 'a rpc_response = RpcData 'a | RpcError string string

definition supabase_rpc :: "(store \<Rightarrow> store \<times> 'a result) \<Rightarrow> store \<Rightarrow> store \<times> 'a rpc_response" where
  "supabase_rpc f s =
     (case f s of
        (s', Inl e) \<Rightarrow> (s', RpcError (errcode e) (errmsg e))
      | (s', Inr v) \<Rightarrow> (s', RpcData v))"

text \<open>\<open>String.prototype.includes\<close>.\<close>

fun js_includes :: "string \<Rightarrow> string \<Rightarrow> bool" where
  "js_includes [] sub = (sub = [])"
| "js_includes (c # cs) sub = (prefix sub (c # cs) \<or> js_includes cs sub)"

text \<open>\<open>a || b\<close> on strings: the empty string is falsy.\<close>

definition js_or :: "string \<Rightarrow> string \<Rightarrow> string" where
  "js_or a b = (if a = [] then b else a)"

text \<open>\<open>message || null\<close> for an optional string argument.\<close>

definition js_or_null :: "string option \<Rightarrow> string option" where
  "js_or_null m = (case m of None \<Rightarrow> None | Some t \<Rightarrow> if t = [] then None else Some t)"

text \<open>The \<open>catch\<close> clause of \<open>createRequest\<close>, applied to what the \<open>try\<close> block threw.\<close>

definition createRequest_catch :: "client_error \<Rightarrow> client_error" where
  "createRequest_catch error =
     (case error of
        PropertyNotAvailableError \<Rightarrow> error
      | ActivePendingRequestError _ \<Rightarrow> error
      | NetworkError _ \<Rightarrow> error
      | Error m \<Rightarrow>
          if js_includes m ''network'' \<or> js_includes m ''fetch'' then NetworkError m
          else Error (js_or m ''Failed to create request''))"

definition createRequest ::
  "uuid \<Rightarrow> uuid \<Rightarrow> string option \<Rightarrow> store \<Rightarrow> store \<times> (client_error + uuid)" where
  "createRequest buyerId propertyId msg s =
     (case supabase_rpc (create_request (Some buyerId) (Some propertyId) (js_or_null msg)) s of
        (s', RpcError c m) \<Rightarrow>
          (s', Inl (createRequest_catch
             (if c = ''P0001'' then PropertyNotAvailableError
              else if c = ''23505'' then ActivePendingRequestError
                ''You have an active pending request. Please wait for it to be processed.''
              else if js_includes m ''network'' \<or> js_includes m ''fetch'' then NetworkError m
              else Error (js_or m ''Failed to create request''))))
      | (s', RpcData d) \<Rightarrow> (s', Inr d))"

definition cancelRequest :: "uuid \<Rightarrow> uuid \<Rightarrow> store \<Rightarrow> store \<times> (client_error + bool)" where
  "cancelRequest requestId userId s =
     (case supabase_rpc (cancel_request (Some requestId) (Some userId)) s of
        (s', RpcError c m) \<Rightarrow>
          (s', Inl (Error (js_or (client_error_message (Error (js_or m ''Failed to cancel request'')))
                             ''Failed to cancel request'')))
      | (s', RpcData d) \<Rightarrow> (s', Inr d))"

text \<open>Whether a client error tells its kind by its class, that is, is not the generic
  \<open>Error\<close>.\<close>

fun typed_error :: "client_error \<Rightarrow> bool" where
  "typed_error (Error _) = False"
| "typed_error _ = True"

section \<open>Example stores\<close>

text \<open>The profiles 10 and 20; seller 10 lists the properties 1 and 2.\<close>

definition listed :: store where
  "listed =
     \<lparr>profiles = [10, 20],
      properties = [\<lparr>prop_id = 1, prop_seller_id = 10, prop_status = Available\<rparr>,
                     \<lparr>prop_id = 2, prop_seller_id = 10, prop_status = Available\<rparr>],
      requests = [], property_history = []\<rparr>"

text \<open>The store after buyer 20 has requested property 1.\<close>

definition requested :: store where
  "requested =
     \<lparr>profiles = [10, 20],
      properties = [\<lparr>prop_id = 1, prop_seller_id = 10, prop_status = Requested\<rparr>,
                     \<lparr>prop_id = 2, prop_seller_id = 10, prop_status = Available\<rparr>],
      requests = [\<lparr>req_id = 1, req_buyer_id = 20, req_property_id = 1, req_seller_id = 10,
                    req_message = Some ''hello'', req_status = Pending\<rparr>],
      property_history =
        [\<lparr>hist_property_id = 1, hist_user_id = 20, hist_action = ''request_created'',
          hist_old_values = Some [(''status'', JText ''available'')],
          hist_new_values = Some [(''status'', JText ''requested''), (''request_id'', JUuid 1)]\<rparr>]\<rparr>"

text \<open>The profiles 10, 20 and 30; request 1 of buyer 30 for property 1 is pending and
  property 2 is available.\<close>

definition other_buyer_pending :: store where
  "other_buyer_pending =
     \<lparr>profiles = [10, 20, 30],
      properties = [\<lparr>prop_id = 1, prop_seller_id = 10, prop_status = Requested\<rparr>,
                     \<lparr>prop_id = 2, prop_seller_id = 10, prop_status = Available\<rparr>],
      requests = [\<lparr>req_id = 1, req_buyer_id = 30, req_property_id = 1, req_seller_id = 10,
                    req_message = None, req_status = Pending\<rparr>],
      property_history = []\<rparr>"


text \<open>A store in which request 1 of buyer 20 is pending while its property 1 is sold.\<close>

definition sold_while_pending :: store where
  "sold_while_pending =
     \<lparr>profiles = [10, 20],
      properties = [\<lparr>prop_id = 1, prop_seller_id = 10, prop_status = Sold\<rparr>],
      requests = [\<lparr>req_id = 1, req_buyer_id = 20, req_property_id = 1, req_seller_id = 10,
                    req_message = None, req_status = Pending\<rparr>],
      property_history = []\<rparr>"

section \<open>Facts about the statements and the request functions\<close>

subsection \<open>Comparisons, fresh identifiers, lookups\<close>

lemma sql_if_ne [simp]: "sql_if (sql_ne (Some a) (Some b)) = (a \<noteq> b)"
  by (simp add: sql_if_def sql_ne_def)

lemma sql_if_eq [simp]: "sql_if (sql_eq (Some a) (Some b)) = (a = b)"
  by (simp add: sql_if_def sql_eq_def)

lemma sql_if_null [simp]:
  "\<not> sql_if (sql_ne a None)" "\<not> sql_if (sql_eq a None)"
  "\<not> sql_if (sql_ne None b)" "\<not> sql_if (sql_eq None b)" "\<not> sql_if (sql_not_in None vs)"
  by (simp_all add: sql_if_def sql_ne_def sql_eq_def sql_not_in_def split: option.splits)

lemma sql_if_not_in [simp]: "sql_if (sql_not_in (Some a) vs) = (a \<notin> set vs)"
  by (simp add: sql_if_def sql_not_in_def)

lemma fold_max_upper: "x \<in> set xs \<Longrightarrow> x \<le> fold max xs (a::nat)"
proof (induction xs arbitrary: a)
  case Nil
  then show ?case by simp
next
  case (Cons y ys)
  have mono: "b \<le> fold max ys b" for b :: nat
    by (induction ys arbitrary: b) (auto intro: order_trans [OF max.cobounded2])
  show ?case
  proof (cases "x = y")
    case True
    have "y \<le> max y a" by simp
    also have "\<dots> \<le> fold max ys (max y a)" by (rule mono)
    finally show ?thesis using True by simp
  next
    case False
    with Cons.prems have "x \<in> set ys" by simp
    then show ?thesis using Cons.IH by simp
  qed
qed

lemma gen_random_uuid_fresh: "r \<in> set rows \<Longrightarrow> req_id r < gen_random_uuid rows"
  unfolding gen_random_uuid_def
  using fold_max_upper [of "req_id r" "map req_id rows" 0] by auto

lemma gen_random_uuid_not_used: "gen_random_uuid rows \<notin> req_id ` set rows"
  using gen_random_uuid_fresh by fastforce

lemma select_property_update:
  "select_property (Some p) rows = Some row \<Longrightarrow>
   select_property (Some p) (update_property_status (Some p) st rows) = Some (row\<lparr>prop_status := st\<rparr>)"
  unfolding select_property_def update_property_status_def
  by (induction rows) (auto split: if_splits)

lemma select_request_append_fresh:
  "i \<notin> req_id ` set rows \<Longrightarrow> req_id new = i \<Longrightarrow> select_request (Some i) (rows @ [new]) = Some new"
  unfolding select_request_def
  by (induction rows) auto

lemma insert_request_pending:
  "insert_request (Some b) (Some p) (Some sl) msg (Some Pending) s =
     (if buyer_has_pending b (requests s)
      then Inl (unique_violation ''idx_requests_buyer_pending_unique'')
      else if b \<notin> set (profiles s)
      then Inl (foreign_key_violation ''requests'' ''requests_buyer_id_fkey'')
      else if p \<notin> prop_id ` set (properties s)
      then Inl (foreign_key_violation ''requests'' ''requests_property_id_fkey'')
      else if sl \<notin> set (profiles s)
      then Inl (foreign_key_violation ''requests'' ''requests_seller_id_fkey'')
      else Inr (requests s @
                  [\<lparr>req_id = gen_random_uuid (requests s), req_buyer_id = b, req_property_id = p,
                    req_seller_id = sl, req_message = msg, req_status = Pending\<rparr>],
                gen_random_uuid (requests s)))"
  by (simp add: insert_request_def Let_def)

lemma insert_request_null_buyer:
  "insert_request None p sl msg st s = Inl (not_null_violation ''buyer_id'' ''requests'')"
  by (simp add: insert_request_def)

lemma update_property_status_ids:
  "prop_id ` set (update_property_status p st rows) = prop_id ` set rows"
  unfolding update_property_status_def
  by (induction rows) simp_all

lemma select_property_SomeD:
  "select_property p rows = Some row \<Longrightarrow> p = Some (prop_id row) \<and> row \<in> set rows"
  unfolding select_property_def
  by (cases p; induction rows) (auto split: if_splits)

lemma select_request_SomeD:
  "select_request p rows = Some row \<Longrightarrow> p = Some (req_id row) \<and> row \<in> set rows"
  unfolding select_request_def
  by (cases p; induction rows) (auto split: if_splits)

subsection \<open>The request functions by cases\<close>

lemma create_request_body_cases:
  "create_request_body b p m s =
     (case select_property p (properties s) of
        None \<Rightarrow> (s, Inl property_not_found)
      | Some row \<Rightarrow>
          if prop_status row \<noteq> Available then (s, Inl (property_not_available (prop_status row)))
          else (case b of
                  None \<Rightarrow> (s, Inl (not_null_violation ''buyer_id'' ''requests''))
                | Some A \<Rightarrow>
                    if A = prop_seller_id row then (s, Inl self_request_forbidden)
                    else if buyer_has_pending A (requests s) then (s, Inl duplicate_pending_request)
                    else if A \<notin> set (profiles s)
                    then (s, Inl (foreign_key_violation ''requests'' ''requests_buyer_id_fkey''))
                    else if prop_seller_id row \<notin> set (profiles s)
                    then (s, Inl (foreign_key_violation ''requests'' ''requests_seller_id_fkey''))
                    else (s\<lparr>requests := requests s @
                              [\<lparr>req_id = gen_random_uuid (requests s), req_buyer_id = A,
                                req_property_id = prop_id row, req_seller_id = prop_seller_id row,
                                req_message = m, req_status = Pending\<rparr>],
                            properties := update_property_status p Requested (properties s),
                            property_history := property_history s @
                              [\<lparr>hist_property_id = prop_id row, hist_user_id = A,
                                hist_action = ''request_created'',
                                hist_old_values = Some [(''status'', JText ''available'')],
                                hist_new_values = Some [(''status'', JText ''requested''),
                                  (''request_id'', JUuid (gen_random_uuid (requests s)))]\<rparr>]\<rparr>,
                          Inr (gen_random_uuid (requests s)))))"
proof (cases "select_property p (properties s)")
  case None
  then show ?thesis by (simp add: create_request_body_def)
next
  case (Some row)
  then have p: "p = Some (prop_id row)" and mem: "prop_id row \<in> prop_id ` set (properties s)"
    using select_property_SomeD by blast+
  show ?thesis
  proof (cases b)
    case None
    with Some show ?thesis
      by (simp add: create_request_body_def Let_def insert_request_null_buyer not_null_violation_def)
  next
    case (Some A)
    with \<open>select_property p (properties s) = Some row\<close> p mem show ?thesis
      by (simp add: create_request_body_def Let_def insert_request_pending
          unique_violation_def foreign_key_violation_def insert_property_history_def
          update_property_status_ids)
  qed
qed

lemma sql_if_eq_Some: "sql_if (sql_eq (Some a) p) = (Some a = p)"
  by (cases p) auto

lemma sql_if_ne_Some: "sql_if (sql_ne (Some a) p) = (\<exists>c. p = Some c \<and> a \<noteq> c)"
  by (cases p) auto

lemma update_request_status_value:
  "stv \<noteq> Pending \<Longrightarrow>
   update_request_status p (Some stv) rows = Inr (set_request_status p stv rows)"
proof -
  assume np: "stv \<noteq> Pending"
  have same: "\<not> (\<exists>r \<in> set rows. sql_if (sql_eq (Some (req_id r)) p))
      \<Longrightarrow> set_request_status p stv rows = rows"
    unfolding set_request_status_def by (induction rows) auto
  show ?thesis
    using np same
    by (auto simp: update_request_status_def Let_def)
qed

lemma update_request_status_null:
  "select_request p rows = Some row \<Longrightarrow>
   update_request_status p None rows = Inl (not_null_violation ''status'' ''requests'')"
  by (auto simp: update_request_status_def Let_def sql_if_eq_Some dest: select_request_SomeD)

lemma cancel_request_body_cases:
  "cancel_request_body r u s =
     (case select_request r (requests s) of
        None \<Rightarrow> (s, Inl request_not_found)
      | Some row \<Rightarrow>
          if \<exists>c. u = Some c \<and> req_buyer_id row \<noteq> c then (s, Inl only_buyer_can_cancel)
          else if req_status row \<noteq> Pending then (s, Inl (only_pending_cancelled (req_status row)))
          else (s\<lparr>requests := set_request_status r Cancelled (requests s),
                  properties := update_property_status (Some (req_property_id row)) Available
                                  (properties s)\<rparr>, Inr True))"
  by (auto simp: cancel_request_body_def Let_def sql_if_ne_Some update_request_status_value
      split: option.splits)

lemma respond_to_request_body_cases:
  "respond_to_request_body r u d s =
     (if \<exists>v. d = Some v \<and> v \<noteq> Accepted \<and> v \<noteq> Declined then (s, Inl invalid_response)
      else case select_request r (requests s) of
        None \<Rightarrow> (s, Inl request_not_found)
      | Some row \<Rightarrow>
          if \<exists>c. u = Some c \<and> req_seller_id row \<noteq> c then (s, Inl only_seller_can_respond)
          else if req_status row \<noteq> Pending then (s, Inl (only_pending_responded (req_status row)))
          else (case d of
                  None \<Rightarrow> (s, Inl (not_null_violation ''status'' ''requests''))
                | Some v \<Rightarrow>
                    (s\<lparr>requests := set_request_status r v (requests s),
                       properties := update_property_status (Some (req_property_id row))
                                       (if v = Accepted then Sold else Available) (properties s)\<rparr>,
                     Inr True)))"
proof (cases d)
  case None
  then show ?thesis
    by (auto simp: respond_to_request_body_def Let_def sql_if_ne_Some update_request_status_null
        split: option.splits)
next
  case (Some v)
  then show ?thesis
    by (cases v)
      (auto simp: respond_to_request_body_def Let_def sql_if_ne_Some update_request_status_value
        split: option.splits)
qed

lemma transaction_result: "snd (transaction body s) = snd (body s)"
  by (simp add: transaction_def split: prod.splits sum.splits)

lemma transaction_failure: "snd (body s) = Inl e \<Longrightarrow> transaction body s = (s, Inl e)"
  by (cases "body s") (auto simp: transaction_def)

lemma create_request_body_failure:
  "snd (create_request_body b p m s) = Inl e \<Longrightarrow> fst (create_request_body b p m s) = s"
  unfolding create_request_body_cases
  by (auto split: option.splits if_splits)

lemma cancel_request_body_failure:
  "snd (cancel_request_body r u s) = Inl e \<Longrightarrow> fst (cancel_request_body r u s) = s"
  unfolding cancel_request_body_cases
  by (auto split: option.splits if_splits)

lemma respond_to_request_body_failure:
  "snd (respond_to_request_body r u d s) = Inl e \<Longrightarrow> fst (respond_to_request_body r u d s) = s"
  unfolding respond_to_request_body_cases
  by (auto split: option.splits if_splits)

lemma select_request_set_status:
  assumes "select_request r rows = Some row"
  shows "select_request r (set_request_status r st rows) = Some (row\<lparr>req_status := st\<rparr>)"
proof (cases r)
  case None
  with assms show ?thesis by (simp add: select_request_def)
next
  case (Some R)
  with assms show ?thesis
    unfolding select_request_def set_request_status_def
    by (induction rows) (simp_all split: if_splits)
qed


lemma update_property_status_hit:
  assumes "q \<in> set (update_property_status (Some pid) st rows)" and "prop_id q = pid"
  shows "prop_status q = st"
proof -
  from assms(1) obtain r where "r \<in> set rows"
    and q: "q = (if prop_id r = pid then r\<lparr>prop_status := st\<rparr> else r)"
    unfolding update_property_status_def by (auto simp: image_iff)
  show ?thesis
  proof (cases "prop_id r = pid")
    case True
    with q show ?thesis by simp
  next
    case False
    with q assms(2) show ?thesis by simp
  qed
qed

lemma update_property_status_image:
  assumes "q \<in> set rows" and "prop_id q = pid"
  shows "q\<lparr>prop_status := st\<rparr> \<in> set (update_property_status (Some pid) st rows)"
proof -
  have "(\<lambda>r. if sql_if (sql_eq (Some (prop_id r)) (Some pid)) then r\<lparr>prop_status := st\<rparr> else r) q
          \<in> set (update_property_status (Some pid) st rows)"
    unfolding update_property_status_def set_map using assms(1) by (rule imageI)
  with assms(2) show ?thesis by simp
qed

lemma transaction_unchanged:
  "(\<And>e. snd (body s) = Inl e \<Longrightarrow> fst (body s) = s) \<Longrightarrow> transaction body s = body s"
  by (cases "body s"; cases "snd (body s)") (auto simp: transaction_def)

lemma create_request_eq_body: "create_request b p m s = create_request_body b p m s"
  unfolding create_request_def
  by (rule transaction_unchanged) (rule create_request_body_failure)

lemma cancel_request_eq_body: "cancel_request r u s = cancel_request_body r u s"
  unfolding cancel_request_def
  by (rule transaction_unchanged) (rule cancel_request_body_failure)

lemma respond_to_request_eq_body: "respond_to_request r u d s = respond_to_request_body r u d s"
  unfolding respond_to_request_def
  by (rule transaction_unchanged) (rule respond_to_request_body_failure)

lemmas create_request_cases = create_request_body_cases [folded create_request_eq_body]
lemmas cancel_request_cases = cancel_request_body_cases [folded cancel_request_eq_body]
lemmas respond_to_request_cases = respond_to_request_body_cases [folded respond_to_request_eq_body]


lemma cancel_request_not_found:
  "select_request r (requests s) = None \<Longrightarrow> cancel_request r u s = (s, Inl request_not_found)"
  by (simp add: cancel_request_cases)

lemma cancel_request_forbidden:
  "select_request r (requests s) = Some row \<Longrightarrow> req_buyer_id row \<noteq> c \<Longrightarrow>
   cancel_request r (Some c) s = (s, Inl only_buyer_can_cancel)"
  by (simp add: cancel_request_cases)

lemma cancel_request_not_pending:
  "select_request r (requests s) = Some row \<Longrightarrow> req_buyer_id row = c \<Longrightarrow>
   req_status row \<noteq> Pending \<Longrightarrow>
   cancel_request r (Some c) s = (s, Inl (only_pending_cancelled (req_status row)))"
  by (simp add: cancel_request_cases)

lemma cancel_request_done:
  "select_request r (requests s) = Some row \<Longrightarrow> req_buyer_id row = c \<Longrightarrow>
   req_status row = Pending \<Longrightarrow>
   cancel_request r (Some c) s =
     (s\<lparr>requests := set_request_status r Cancelled (requests s),
        properties := update_property_status (Some (req_property_id row)) Available (properties s)\<rparr>,
      Inr True)"
  by (simp add: cancel_request_cases)

lemma respond_to_request_invalid:
  "d \<noteq> Accepted \<Longrightarrow> d \<noteq> Declined \<Longrightarrow>
   respond_to_request r u (Some d) s = (s, Inl invalid_response)"
  by (simp add: respond_to_request_cases)

lemma respond_to_request_not_found:
  "d = Accepted \<or> d = Declined \<Longrightarrow> select_request r (requests s) = None \<Longrightarrow>
   respond_to_request r u (Some d) s = (s, Inl request_not_found)"
  by (auto simp: respond_to_request_cases)

lemma respond_to_request_forbidden:
  "d = Accepted \<or> d = Declined \<Longrightarrow> select_request r (requests s) = Some row \<Longrightarrow>
   req_seller_id row \<noteq> c \<Longrightarrow>
   respond_to_request r (Some c) (Some d) s = (s, Inl only_seller_can_respond)"
  by (auto simp: respond_to_request_cases)

lemma respond_to_request_not_pending:
  "d = Accepted \<or> d = Declined \<Longrightarrow> select_request r (requests s) = Some row \<Longrightarrow>
   req_seller_id row = c \<Longrightarrow> req_status row \<noteq> Pending \<Longrightarrow>
   respond_to_request r (Some c) (Some d) s = (s, Inl (only_pending_responded (req_status row)))"
  by (auto simp: respond_to_request_cases)

lemma respond_to_request_done:
  "d = Accepted \<or> d = Declined \<Longrightarrow> select_request r (requests s) = Some row \<Longrightarrow>
   req_seller_id row = c \<Longrightarrow> req_status row = Pending \<Longrightarrow>
   respond_to_request r (Some c) (Some d) s =
     (s\<lparr>requests := set_request_status r d (requests s),
        properties := update_property_status (Some (req_property_id row))
                        (if d = Accepted then Sold else Available) (properties s)\<rparr>,
      Inr True)"
  by (auto simp: respond_to_request_cases)

lemma create_request_unknown_buyer:
  "select_property (Some P) (properties s) = Some row \<Longrightarrow> prop_status row = Available \<Longrightarrow>
   A \<noteq> prop_seller_id row \<Longrightarrow> \<not> buyer_has_pending A (requests s) \<Longrightarrow>
   A \<notin> set (profiles s) \<Longrightarrow>
   create_request (Some A) (Some P) m s =
     (s, Inl (foreign_key_violation ''requests'' ''requests_buyer_id_fkey''))"
  by (simp add: create_request_cases)

subsection \<open>The pending requests of a buyer\<close>










subsection \<open>Writes to the history\<close>

lemma cancel_request_history:
  "property_history (fst (cancel_request r u s)) = property_history s"
  by (simp add: cancel_request_cases split: option.splits)

lemma respond_to_request_history:
  "property_history (fst (respond_to_request r u d s)) = property_history s"
  by (simp add: respond_to_request_cases split: option.splits)

lemma create_request_listed:
  "create_request (Some 20) (Some 1) (Some ''hello'') listed = (requested, Inr 1)"
  by (simp add: create_request_cases listed_def requested_def select_property_def
      buyer_has_pending_def gen_random_uuid_def update_property_status_def)

subsection \<open>Direct updates\<close>















subsection \<open>The client functions\<close>

lemma create_request_exceptions:
  assumes "snd (create_request (Some b) p m s) = Inl e"
  shows "e = property_not_found \<or> (\<exists>st. e = property_not_available st)
         \<or> e = self_request_forbidden \<or> e = duplicate_pending_request
         \<or> e = foreign_key_violation ''requests'' ''requests_buyer_id_fkey''
         \<or> e = foreign_key_violation ''requests'' ''requests_seller_id_fkey''"
  using assms by (auto simp: create_request_cases split: option.splits if_splits)

lemma cancel_request_exceptions:
  assumes "snd (cancel_request r u s) = Inl e"
  shows "e = request_not_found \<or> e = only_buyer_can_cancel \<or> (\<exists>st. e = only_pending_cancelled st)"
  using assms by (auto simp: cancel_request_cases split: option.splits if_splits)

lemma createRequest_of_exception:
  assumes "e = property_not_found \<or> (\<exists>st. e = property_not_available st)
         \<or> e = self_request_forbidden \<or> e = duplicate_pending_request
         \<or> e = foreign_key_violation ''requests'' ''requests_buyer_id_fkey''
         \<or> e = foreign_key_violation ''requests'' ''requests_seller_id_fkey''"
  shows "createRequest_catch
           (if errcode e = ''P0001'' then PropertyNotAvailableError
            else if errcode e = ''23505'' then ActivePendingRequestError
              ''You have an active pending request. Please wait for it to be processed.''
            else if js_includes (errmsg e) ''network'' \<or> js_includes (errmsg e) ''fetch''
            then NetworkError (errmsg e)
            else Error (js_or (errmsg e) ''Failed to create request''))
         = (if errcode e = ''P0001'' then PropertyNotAvailableError
            else if errcode e = ''23505'' then ActivePendingRequestError
              ''You have an active pending request. Please wait for it to be processed.''
            else Error (errmsg e))"
proof -
  consider "e = property_not_found" | st where "e = property_not_available st"
    | "e = self_request_forbidden" | "e = duplicate_pending_request"
    | "e = foreign_key_violation ''requests'' ''requests_buyer_id_fkey''"
    | "e = foreign_key_violation ''requests'' ''requests_seller_id_fkey''"
    using assms by blast
  then show ?thesis
  proof cases
    case 1
    then show ?thesis
      by (simp add: property_not_found_def createRequest_catch_def js_or_def)
  next
    case 2
    then show ?thesis
      by (simp add: property_not_available_def createRequest_catch_def)
  next
    case 3
    then show ?thesis
      by (simp add: self_request_forbidden_def createRequest_catch_def js_or_def)
  next
    case 4
    then show ?thesis
      by (simp add: duplicate_pending_request_def createRequest_catch_def)
  next
    case 5
    then show ?thesis
      by (simp add: foreign_key_violation_def createRequest_catch_def js_or_def)
  next
    case 6
    then show ?thesis
      by (simp add: foreign_key_violation_def createRequest_catch_def js_or_def)
  qed
qed


lemma supabase_rpc_failure:
  "snd (f s) = Inl e \<Longrightarrow> supabase_rpc f s = (fst (f s), RpcError (errcode e) (errmsg e))"
  by (cases "f s") (simp add: supabase_rpc_def)

lemma supabase_rpc_success:
  "snd (f s) = Inr v \<Longrightarrow> supabase_rpc f s = (fst (f s), RpcData v)"
  by (cases "f s") (simp add: supabase_rpc_def)

lemma createRequest_store:
  "fst (createRequest b p m s) = fst (create_request (Some b) (Some p) (js_or_null m) s)"
  by (cases "snd (create_request (Some b) (Some p) (js_or_null m) s)")
    (simp_all add: createRequest_def supabase_rpc_failure supabase_rpc_success)

lemma cancelRequest_store:
  "fst (cancelRequest r u s) = fst (cancel_request (Some r) (Some u) s)"
  by (cases "snd (cancel_request (Some r) (Some u) s)")
    (simp_all add: cancelRequest_def supabase_rpc_failure supabase_rpc_success)

lemma cancelRequest_of_exception:
  assumes "e = request_not_found \<or> e = only_buyer_can_cancel \<or> (\<exists>st. e = only_pending_cancelled st)"
  shows "js_or (client_error_message (Error (js_or (errmsg e) ''Failed to cancel request'')))
           ''Failed to cancel request'' = errmsg e"
  using assms
  by (auto simp: request_not_found_def only_buyer_can_cancel_def only_pending_cancelled_def
      js_or_def)

section \<open>Creating a request\<close>

text \<open>
  Claim C1. Let property \<open>P\<close> exist with status \<open>available\<close> and seller \<open>S\<close>, and let
  buyer \<open>A\<close> differ from \<open>S\<close> and have no pending request anywhere in the system; buyer
  and seller are profiles (the seller by the foreign key of \<open>properties.seller_id\<close>). Then
  \<open>create_request(A, P, message)\<close> succeeds and returns an id \<open>R\<close> that no earlier request
  has; the requests table is the old one followed by the single row \<open>R\<close> with buyer \<open>A\<close>,
  property \<open>P\<close>, seller \<open>S\<close> (taken from the property), the message as given and status
  \<open>pending\<close>; and the property \<open>P\<close> now has status \<open>requested\<close>. Pending requests of
  other buyers do not matter. (For an identifier \<open>A\<close> without a row in \<open>profiles\<close> the
  insert violates the foreign key of \<open>buyer_id\<close>: lemma \<open>create_request_unknown_buyer\<close>.)
\<close>

theorem create_request_success:
  assumes found: "select_property (Some P) (properties s) = Some row"
    and avail: "prop_status row = Available"
    and seller: "prop_seller_id row = S"
    and other: "A \<noteq> S"
    and nopend: "\<not> buyer_has_pending A (requests s)"
    and buyer_profile: "A \<in> set (profiles s)"
    and seller_profile: "S \<in> set (profiles s)"
  shows "\<exists>s' R. create_request (Some A) (Some P) message s = (s', Inr R)
           \<and> R \<notin> req_id ` set (requests s)
           \<and> requests s' = requests s @
                [\<lparr>req_id = R, req_buyer_id = A, req_property_id = P, req_seller_id = S,
                  req_message = message, req_status = Pending\<rparr>]
           \<and> select_request (Some R) (requests s') =
                Some \<lparr>req_id = R, req_buyer_id = A, req_property_id = P, req_seller_id = S,
                      req_message = message, req_status = Pending\<rparr>
           \<and> select_property (Some P) (properties s') = Some (row\<lparr>prop_status := Requested\<rparr>)"
proof -
  let ?R = "gen_random_uuid (requests s)"
  let ?new = "\<lparr>req_id = ?R, req_buyer_id = A, req_property_id = P, req_seller_id = S,
                req_message = message, req_status = Pending\<rparr>"
  let ?s' = "s\<lparr>requests := requests s @ [?new],
               properties := update_property_status (Some P) Requested (properties s),
               property_history := property_history s @
                 [\<lparr>hist_property_id = P, hist_user_id = A, hist_action = ''request_created'',
                   hist_old_values = Some [(''status'', JText ''available'')],
                   hist_new_values = Some [(''status'', JText ''requested''),
                                           (''request_id'', JUuid ?R)]\<rparr>]\<rparr>"
  from found have pid: "prop_id row = P"
    using select_property_SomeD by fastforce
  have run: "create_request (Some A) (Some P) message s = (?s', Inr ?R)"
    using found avail seller other nopend buyer_profile seller_profile pid
    by (simp add: create_request_cases)
  have fresh: "?R \<notin> req_id ` set (requests s)"
    by (rule gen_random_uuid_not_used)
  have sel: "select_request (Some ?R) (requests ?s') = Some ?new"
    using select_request_append_fresh [OF fresh, of ?new] by simp
  have upd: "select_property (Some P) (properties ?s') = Some (row\<lparr>prop_status := Requested\<rparr>)"
    using select_property_update [OF found] by simp
  show ?thesis using run fresh sel upd by simp
qed

text \<open>The witness: buyer 20 asks for the available property 2 while buyer 30 holds a
  pending request for property 1.\<close>

theorem create_request_success_witness:
  "select_property (Some 2) (properties other_buyer_pending) =
     Some \<lparr>prop_id = 2, prop_seller_id = 10, prop_status = Available\<rparr>
   \<and> buyer_has_pending 30 (requests other_buyer_pending)
   \<and> (\<exists>s' R. create_request (Some 20) (Some 2) (Some ''hello'') other_buyer_pending = (s', Inr R)
           \<and> R \<notin> req_id ` set (requests other_buyer_pending)
           \<and> requests s' = requests other_buyer_pending @
                [\<lparr>req_id = R, req_buyer_id = 20, req_property_id = 2, req_seller_id = 10,
                  req_message = Some ''hello'', req_status = Pending\<rparr>]
           \<and> select_request (Some R) (requests s') =
                Some \<lparr>req_id = R, req_buyer_id = 20, req_property_id = 2, req_seller_id = 10,
                      req_message = Some ''hello'', req_status = Pending\<rparr>
           \<and> select_property (Some 2) (properties s') =
                Some \<lparr>prop_id = 2, prop_seller_id = 10, prop_status = Requested\<rparr>)"
proof -
  have pre: "select_property (Some 2) (properties other_buyer_pending) =
       Some \<lparr>prop_id = 2, prop_seller_id = 10, prop_status = Available\<rparr>"
    "buyer_has_pending 30 (requests other_buyer_pending)"
    "\<not> buyer_has_pending 20 (requests other_buyer_pending)"
    "20 \<in> set (profiles other_buyer_pending)" "10 \<in> set (profiles other_buyer_pending)"
    by (simp_all add: other_buyer_pending_def select_property_def buyer_has_pending_def)
  from create_request_success
    [of 2 other_buyer_pending "\<lparr>prop_id = 2, prop_seller_id = 10, prop_status = Available\<rparr>"
        10 20 "Some ''hello''"] pre
  show ?thesis by simp
qed

section \<open>The order of the checks of \<open>create_request\<close>\<close>

text \<open>
  Claim C3. \<open>create_request\<close> fails with NotFound (\<open>P0002\<close>) exactly when the property does
  not exist; for an existing property it fails with PropertyNotAvailable (\<open>P0001\<close>, naming
  the current status) exactly when the status is not \<open>available\<close>; for an available
  property it fails with SelfRequestForbidden (\<open>P0003\<close>) exactly when the seller is the
  requesting buyer; and otherwise it fails with DuplicatePendingRequest (\<open>23505\<close>) exactly
  when the buyer already has a pending request. So a self-request on a property that is not
  available reports PropertyNotAvailable.
\<close>

theorem create_request_check_order:
  "((snd (create_request b p m s) = Inl property_not_found)
      = (select_property p (properties s) = None))
   \<and> (\<forall>row. select_property p (properties s) = Some row \<longrightarrow>
        ((\<exists>st. snd (create_request b p m s) = Inl (property_not_available st))
           = (prop_status row \<noteq> Available))
        \<and> (prop_status row \<noteq> Available \<longrightarrow>
             snd (create_request b p m s) = Inl (property_not_available (prop_status row)))
        \<and> (prop_status row = Available \<longrightarrow>
             ((snd (create_request b p m s) = Inl self_request_forbidden)
                = (b = Some (prop_seller_id row)))
             \<and> (b \<noteq> Some (prop_seller_id row) \<longrightarrow>
                  ((snd (create_request b p m s) = Inl duplicate_pending_request)
                     = (\<exists>A. b = Some A \<and> buyer_has_pending A (requests s))))))"
proof -
  have res: "snd (create_request b p m s) = snd (create_request_body b p m s)"
    by (simp add: create_request_def transaction_def split: prod.splits sum.splits)
  show ?thesis
    unfolding res create_request_body_cases
    by (auto simp: property_not_found_def property_not_available_def self_request_forbidden_def
        duplicate_pending_request_def not_null_violation_def foreign_key_violation_def
        split: option.splits)
qed

theorem create_request_check_order_witness:
  "select_property (Some 1) (properties requested) =
     Some \<lparr>prop_id = 1, prop_seller_id = 10, prop_status = Requested\<rparr>
   \<and> snd (create_request (Some 10) (Some 1) None requested) =
       Inl (property_not_available Requested)
   \<and> snd (create_request (Some 10) (Some 1) None requested) \<noteq> Inl self_request_forbidden
   \<and> select_property (Some 99) (properties requested) = None
   \<and> snd (create_request (Some 20) (Some 99) None requested) = Inl property_not_found
   \<and> select_property (Some 2) (properties requested) =
       Some \<lparr>prop_id = 2, prop_seller_id = 10, prop_status = Available\<rparr>
   \<and> snd (create_request (Some 10) (Some 2) None requested) = Inl self_request_forbidden
   \<and> buyer_has_pending 20 (requests requested)
   \<and> snd (create_request (Some 20) (Some 2) None requested) = Inl duplicate_pending_request"
proof -
  have sel1: "select_property (Some 1) (properties requested) =
     Some \<lparr>prop_id = 1, prop_seller_id = 10, prop_status = Requested\<rparr>"
    and sel2: "select_property (Some 2) (properties requested) =
     Some \<lparr>prop_id = 2, prop_seller_id = 10, prop_status = Available\<rparr>"
    and sel99: "select_property (Some 99) (properties requested) = None"
    and pend: "buyer_has_pending 20 (requests requested)"
    by (simp_all add: requested_def select_property_def buyer_has_pending_def)
  from create_request_check_order [of "Some 10" "Some 1" None requested] sel1
  have a: "snd (create_request (Some 10) (Some 1) None requested) =
       Inl (property_not_available Requested)"
    by simp
  from create_request_check_order [of "Some 20" "Some 99" None requested] sel99
  have b: "snd (create_request (Some 20) (Some 99) None requested) = Inl property_not_found"
    by simp
  from create_request_check_order [of "Some 10" "Some 2" None requested] sel2
  have c: "snd (create_request (Some 10) (Some 2) None requested) = Inl self_request_forbidden"
    by simp
  from create_request_check_order [of "Some 20" "Some 2" None requested] sel2 pend
  have d: "snd (create_request (Some 20) (Some 2) None requested) = Inl duplicate_pending_request"
    by simp
  from sel1 sel2 sel99 pend a b c d show ?thesis
    by (simp add: property_not_available_def self_request_forbidden_def)
qed

section \<open>Failures write nothing\<close>

text \<open>
  Claim C4. Whenever \<open>create_request\<close>, \<open>cancel_request\<close> or \<open>respond_to_request\<close> fails,
  the store after the call is the store before it: no request row inserted or updated, no
  property status changed, no history appended. This holds already for the store as it
  stands at the moment the function raises, before anything is rolled back, because every
  \<open>RAISE\<close> and every failing statement comes before the first write. In particular, when
  \<open>create_request\<close> finds the property available and then fails with
  DuplicatePendingRequest, the property is still \<open>available\<close>.
\<close>

theorem failure_leaves_store_unchanged:
  "(snd (create_request b p m s) = Inl e \<longrightarrow>
      fst (create_request b p m s) = s \<and> create_request_body b p m s = (s, Inl e))
   \<and> (snd (cancel_request r u s) = Inl e \<longrightarrow>
      fst (cancel_request r u s) = s \<and> cancel_request_body r u s = (s, Inl e))
   \<and> (snd (respond_to_request r u d s) = Inl e \<longrightarrow>
      fst (respond_to_request r u d s) = s \<and> respond_to_request_body r u d s = (s, Inl e))
   \<and> (select_property p (properties s) = Some row \<and> prop_status row = Available
        \<and> b = Some A \<and> A \<noteq> prop_seller_id row \<and> buyer_has_pending A (requests s) \<longrightarrow>
      create_request b p m s = (s, Inl duplicate_pending_request)
      \<and> create_request_body b p m s = (s, Inl duplicate_pending_request)
      \<and> select_property p (properties (fst (create_request b p m s))) = Some row)"
proof (intro conjI impI)
  assume f: "snd (create_request b p m s) = Inl e"
  then have "snd (create_request_body b p m s) = Inl e"
    by (simp add: create_request_def transaction_result)
  then show "fst (create_request b p m s) = s" "create_request_body b p m s = (s, Inl e)"
    using create_request_body_failure [of b p m s e]
    by (simp_all add: create_request_def transaction_failure prod_eq_iff)
next
  assume f: "snd (cancel_request r u s) = Inl e"
  then have "snd (cancel_request_body r u s) = Inl e"
    by (simp add: cancel_request_def transaction_result)
  then show "fst (cancel_request r u s) = s" "cancel_request_body r u s = (s, Inl e)"
    using cancel_request_body_failure [of r u s e]
    by (simp_all add: cancel_request_def transaction_failure prod_eq_iff)
next
  assume f: "snd (respond_to_request r u d s) = Inl e"
  then have "snd (respond_to_request_body r u d s) = Inl e"
    by (simp add: respond_to_request_def transaction_result)
  then show "fst (respond_to_request r u d s) = s" "respond_to_request_body r u d s = (s, Inl e)"
    using respond_to_request_body_failure [of r u d s e]
    by (simp_all add: respond_to_request_def transaction_failure prod_eq_iff)
next
  assume h: "select_property p (properties s) = Some row \<and> prop_status row = Available
        \<and> b = Some A \<and> A \<noteq> prop_seller_id row \<and> buyer_has_pending A (requests s)"
  then have body: "create_request_body b p m s = (s, Inl duplicate_pending_request)"
    by (simp add: create_request_body_cases)
  then show "create_request_body b p m s = (s, Inl duplicate_pending_request)" .
  from body show run: "create_request b p m s = (s, Inl duplicate_pending_request)"
    by (simp add: create_request_def transaction_def)
  from run h show "select_property p (properties (fst (create_request b p m s))) = Some row"
    by simp
qed

theorem failure_leaves_store_unchanged_witness:
  "create_request (Some 20) (Some 2) None requested = (requested, Inl duplicate_pending_request)
   \<and> select_property (Some 2) (properties (fst (create_request (Some 20) (Some 2) None requested)))
       = Some \<lparr>prop_id = 2, prop_seller_id = 10, prop_status = Available\<rparr>
   \<and> snd (create_request (Some 20) (Some 99) None requested) = Inl property_not_found
   \<and> fst (create_request (Some 20) (Some 99) None requested) = requested
   \<and> snd (cancel_request (Some 1) (Some 30) requested) = Inl only_buyer_can_cancel
   \<and> fst (cancel_request (Some 1) (Some 30) requested) = requested
   \<and> snd (respond_to_request (Some 1) (Some 10) (Some Cancelled) requested) = Inl invalid_response
   \<and> fst (respond_to_request (Some 1) (Some 10) (Some Cancelled) requested) = requested"
proof -
  have sel: "select_property (Some 2) (properties requested) =
          Some \<lparr>prop_id = 2, prop_seller_id = 10, prop_status = Available\<rparr>"
    and pend: "buyer_has_pending 20 (requests requested)"
    by (simp_all add: requested_def select_property_def buyer_has_pending_def)
  have f1: "snd (create_request (Some 20) (Some 99) None requested) = Inl property_not_found"
    by (simp add: create_request_cases requested_def select_property_def)
  have f2: "snd (cancel_request (Some 1) (Some 30) requested) = Inl only_buyer_can_cancel"
    by (simp add: cancel_request_cases requested_def select_request_def)
  have f3: "snd (respond_to_request (Some 1) (Some 10) (Some Cancelled) requested)
      = Inl invalid_response"
    by (simp add: respond_to_request_cases)
  from failure_leaves_store_unchanged
    [where b = "Some 20" and p = "Some 2" and m = None and s = requested and A = 20
       and row = "\<lparr>prop_id = 2, prop_seller_id = 10, prop_status = Available\<rparr>"] sel pend
  have a: "create_request (Some 20) (Some 2) None requested
      = (requested, Inl duplicate_pending_request)"
    by simp
  from failure_leaves_store_unchanged
    [where b = "Some 20" and p = "Some 99" and m = None and s = requested
       and e = property_not_found] f1
  have b: "fst (create_request (Some 20) (Some 99) None requested) = requested"
    by blast
  from failure_leaves_store_unchanged
    [where s = requested and e = only_buyer_can_cancel and r = "Some 1" and u = "Some 30"] f2
  have c: "fst (cancel_request (Some 1) (Some 30) requested) = requested"
    by blast
  from failure_leaves_store_unchanged
    [where s = requested and e = invalid_response and r = "Some 1" and u = "Some 10"
       and d = "Some Cancelled"] f3
  have d: "fst (respond_to_request (Some 1) (Some 10) (Some Cancelled) requested) = requested"
    by blast
  from a sel b c d f1 f2 f3 show ?thesis by simp
qed

section \<open>Cancelling a request\<close>

text \<open>
  Claim C5. \<open>cancel_request(requestId, callerId)\<close> is to fail with Forbidden whenever
  \<open>callerId\<close> is not the buyer of the request. For a caller that is an identifier the
  function does what the claim says (lemmas \<open>cancel_request_not_found\<close>,
  \<open>cancel_request_forbidden\<close>, \<open>cancel_request_not_pending\<close>, \<open>cancel_request_done\<close>).
  The check is written \<open>v_buyer_id != p_user_id\<close>, which is \<open>NULL\<close> and not true when
  \<open>p_user_id\<close> is \<open>NULL\<close>: in the store where request 1 of buyer 20 is pending,
  \<open>cancel_request(1, NULL)\<close> does not fail. It returns true, the request is cancelled and
  its property is available again.
\<close>

theorem cancel_request_null_caller:
  "select_request (Some 1) (requests requested) =
     Some \<lparr>req_id = 1, req_buyer_id = 20, req_property_id = 1, req_seller_id = 10,
           req_message = Some ''hello'', req_status = Pending\<rparr>
   \<and> snd (cancel_request (Some 1) None requested) = Inr True
   \<and> select_request (Some 1) (requests (fst (cancel_request (Some 1) None requested))) =
       Some \<lparr>req_id = 1, req_buyer_id = 20, req_property_id = 1, req_seller_id = 10,
             req_message = Some ''hello'', req_status = Cancelled\<rparr>
   \<and> select_property (Some 1) (properties (fst (cancel_request (Some 1) None requested))) =
       Some \<lparr>prop_id = 1, prop_seller_id = 10, prop_status = Available\<rparr>"
  by (simp add: cancel_request_cases requested_def select_request_def select_property_def
      set_request_status_def update_property_status_def)

section \<open>Responding to a request\<close>

text \<open>
  Claim C6. \<open>respond_to_request(requestId, callerId, decision)\<close> is to fail with
  InvalidArgument whenever the decision is neither \<open>accepted\<close> nor \<open>declined\<close>, before
  the request is read, and with Forbidden when the caller is not the seller. For a caller
  and a decision that are not \<open>NULL\<close> the function does what the claim says (lemmas
  \<open>respond_to_request_invalid\<close>, \<open>respond_to_request_not_found\<close>,
  \<open>respond_to_request_forbidden\<close>, \<open>respond_to_request_not_pending\<close>,
  \<open>respond_to_request_done\<close>). With a \<open>NULL\<close> decision the test
  \<open>p_response NOT IN ('accepted', 'declined')\<close> is not true: the request is read, a
  missing request is reported as not found, and for the pending request 1 the seller's call
  fails only in the \<open>UPDATE\<close>, with the not-null violation \<open>23502\<close> instead of \<open>P0005\<close>.
  With a \<open>NULL\<close> caller the seller check is not true either, and the request is accepted.
\<close>

theorem respond_to_request_null_arguments:
  "snd (respond_to_request (Some 1) (Some 10) None requested)
     = Inl (not_null_violation ''status'' ''requests'')
   \<and> not_null_violation ''status'' ''requests'' \<noteq> invalid_response
   \<and> snd (respond_to_request (Some 99) (Some 10) None requested) = Inl request_not_found
   \<and> request_not_found \<noteq> invalid_response
   \<and> snd (respond_to_request (Some 1) None (Some Accepted) requested) = Inr True
   \<and> select_property (Some 1)
        (properties (fst (respond_to_request (Some 1) None (Some Accepted) requested)))
       = Some \<lparr>prop_id = 1, prop_seller_id = 10, prop_status = Sold\<rparr>"
  by (simp add: respond_to_request_cases requested_def select_request_def select_property_def
      set_request_status_def update_property_status_def not_null_violation_def
      invalid_response_def request_not_found_def)

section \<open>Cancel and decline reset the property\<close>

text \<open>
  Claim C10. When a request is pending and the caller passes the buyer check of
  \<open>cancel_request\<close> (the seller check of \<open>respond_to_request\<close> with decision
  \<open>declined\<close>), the call succeeds and rewrites every property row with the request's
  property id to status \<open>available\<close>, whatever status the row had: the properties table
  is read nowhere in these two functions, only updated.
\<close>

theorem property_reset_is_unconditional:
  "select_request r (requests s) = Some row \<and> req_status row = Pending \<longrightarrow>
     ((u = None \<or> u = Some (req_buyer_id row)) \<longrightarrow>
        snd (cancel_request r u s) = Inr True
        \<and> properties (fst (cancel_request r u s)) =
            update_property_status (Some (req_property_id row)) Available (properties s)
        \<and> (\<forall>q \<in> set (properties s). prop_id q = req_property_id row \<longrightarrow>
              q\<lparr>prop_status := Available\<rparr> \<in> set (properties (fst (cancel_request r u s))))
        \<and> (\<forall>q \<in> set (properties (fst (cancel_request r u s))).
              prop_id q = req_property_id row \<longrightarrow> prop_status q = Available))
     \<and> ((u = None \<or> u = Some (req_seller_id row)) \<longrightarrow>
        snd (respond_to_request r u (Some Declined) s) = Inr True
        \<and> properties (fst (respond_to_request r u (Some Declined) s)) =
            update_property_status (Some (req_property_id row)) Available (properties s)
        \<and> (\<forall>q \<in> set (properties s). prop_id q = req_property_id row \<longrightarrow>
              q\<lparr>prop_status := Available\<rparr>
                \<in> set (properties (fst (respond_to_request r u (Some Declined) s))))
        \<and> (\<forall>q \<in> set (properties (fst (respond_to_request r u (Some Declined) s))).
              prop_id q = req_property_id row \<longrightarrow> prop_status q = Available))"
proof (intro impI)
  assume h: "select_request r (requests s) = Some row \<and> req_status row = Pending"
  let ?P = "update_property_status (Some (req_property_id row)) Available (properties s)"
  have hit: "\<forall>q \<in> set ?P. prop_id q = req_property_id row \<longrightarrow> prop_status q = Available"
    using update_property_status_hit by blast
  have img: "\<forall>q \<in> set (properties s). prop_id q = req_property_id row \<longrightarrow>
               q\<lparr>prop_status := Available\<rparr> \<in> set ?P"
    using update_property_status_image by blast
  have c: "cancel_request r u s =
             (s\<lparr>requests := set_request_status r Cancelled (requests s), properties := ?P\<rparr>, Inr True)"
    if "u = None \<or> u = Some (req_buyer_id row)"
    using h that by (auto simp: cancel_request_cases)
  have d: "respond_to_request r u (Some Declined) s =
             (s\<lparr>requests := set_request_status r Declined (requests s), properties := ?P\<rparr>, Inr True)"
    if "u = None \<or> u = Some (req_seller_id row)"
    using h that by (auto simp: respond_to_request_cases)
  show "((u = None \<or> u = Some (req_buyer_id row)) \<longrightarrow>
        snd (cancel_request r u s) = Inr True
        \<and> properties (fst (cancel_request r u s)) = ?P
        \<and> (\<forall>q \<in> set (properties s). prop_id q = req_property_id row \<longrightarrow>
              q\<lparr>prop_status := Available\<rparr> \<in> set (properties (fst (cancel_request r u s))))
        \<and> (\<forall>q \<in> set (properties (fst (cancel_request r u s))).
              prop_id q = req_property_id row \<longrightarrow> prop_status q = Available))
     \<and> ((u = None \<or> u = Some (req_seller_id row)) \<longrightarrow>
        snd (respond_to_request r u (Some Declined) s) = Inr True
        \<and> properties (fst (respond_to_request r u (Some Declined) s)) = ?P
        \<and> (\<forall>q \<in> set (properties s). prop_id q = req_property_id row \<longrightarrow>
              q\<lparr>prop_status := Available\<rparr>
                \<in> set (properties (fst (respond_to_request r u (Some Declined) s))))
        \<and> (\<forall>q \<in> set (properties (fst (respond_to_request r u (Some Declined) s))).
              prop_id q = req_property_id row \<longrightarrow> prop_status q = Available))"
  proof (intro conjI impI)
    assume u: "u = None \<or> u = Some (req_buyer_id row)"
    show "snd (cancel_request r u s) = Inr True" by (simp add: c [OF u])
    show "properties (fst (cancel_request r u s)) = ?P" by (simp add: c [OF u])
    show "\<forall>q \<in> set (properties s). prop_id q = req_property_id row \<longrightarrow>
              q\<lparr>prop_status := Available\<rparr> \<in> set (properties (fst (cancel_request r u s)))"
      using img by (simp add: c [OF u])
    show "\<forall>q \<in> set (properties (fst (cancel_request r u s))).
              prop_id q = req_property_id row \<longrightarrow> prop_status q = Available"
      using hit by (simp add: c [OF u])
  next
    assume u: "u = None \<or> u = Some (req_seller_id row)"
    show "snd (respond_to_request r u (Some Declined) s) = Inr True" by (simp add: d [OF u])
    show "properties (fst (respond_to_request r u (Some Declined) s)) = ?P" by (simp add: d [OF u])
    show "\<forall>q \<in> set (properties s). prop_id q = req_property_id row \<longrightarrow>
              q\<lparr>prop_status := Available\<rparr>
                \<in> set (properties (fst (respond_to_request r u (Some Declined) s)))"
      using img by (simp add: d [OF u])
    show "\<forall>q \<in> set (properties (fst (respond_to_request r u (Some Declined) s))).
              prop_id q = req_property_id row \<longrightarrow> prop_status q = Available"
      using hit by (simp add: d [OF u])
  qed
qed

theorem property_reset_is_unconditional_witness:
  "select_property (Some 1) (properties sold_while_pending) =
     Some \<lparr>prop_id = 1, prop_seller_id = 10, prop_status = Sold\<rparr>
   \<and> snd (cancel_request (Some 1) (Some 20) sold_while_pending) = Inr True
   \<and> properties (fst (cancel_request (Some 1) (Some 20) sold_while_pending)) =
       [\<lparr>prop_id = 1, prop_seller_id = 10, prop_status = Available\<rparr>]
   \<and> snd (respond_to_request (Some 1) (Some 10) (Some Declined) sold_while_pending) = Inr True
   \<and> properties (fst (respond_to_request (Some 1) (Some 10) (Some Declined) sold_while_pending)) =
       [\<lparr>prop_id = 1, prop_seller_id = 10, prop_status = Available\<rparr>]"
proof -
  let ?row = "\<lparr>req_id = 1, req_buyer_id = 20, req_property_id = 1, req_seller_id = 10,
                req_message = None, req_status = Pending\<rparr>"
  have sel: "select_request (Some 1) (requests sold_while_pending) = Some ?row"
    by (simp add: sold_while_pending_def select_request_def)
  have upd: "update_property_status (Some 1) Available (properties sold_while_pending) =
      [\<lparr>prop_id = 1, prop_seller_id = 10, prop_status = Available\<rparr>]"
    by (simp add: sold_while_pending_def update_property_status_def)
  have before: "select_property (Some 1) (properties sold_while_pending) =
     Some \<lparr>prop_id = 1, prop_seller_id = 10, prop_status = Sold\<rparr>"
    by (simp add: sold_while_pending_def select_property_def)
  from property_reset_is_unconditional [of "Some 1" sold_while_pending ?row "Some 20"] sel upd
  have c: "snd (cancel_request (Some 1) (Some 20) sold_while_pending) = Inr True
      \<and> properties (fst (cancel_request (Some 1) (Some 20) sold_while_pending)) =
       [\<lparr>prop_id = 1, prop_seller_id = 10, prop_status = Available\<rparr>]"
    by simp
  from property_reset_is_unconditional [of "Some 1" sold_while_pending ?row "Some 10"] sel upd
  have d: "snd (respond_to_request (Some 1) (Some 10) (Some Declined) sold_while_pending) = Inr True
      \<and> properties (fst (respond_to_request (Some 1) (Some 10) (Some Declined) sold_while_pending)) =
       [\<lparr>prop_id = 1, prop_seller_id = 10, prop_status = Available\<rparr>]"
    by simp
  from before c d show ?thesis by simp
qed

section \<open>One pending request per buyer\<close>




section \<open>The audit history\<close>

text \<open>
  Claim C7. The status of a property is to be what replaying \<open>property_history\<close> gives.
  Only \<open>create_request\<close> appends a history row; \<open>cancel_request\<close> and
  \<open>respond_to_request\<close> change the status of the property and leave the history as it
  is (lemmas \<open>cancel_request_history\<close>, \<open>respond_to_request_history\<close>). Starting from
  the listed properties: after buyer 20 has requested property 1 the replay agrees with the
  property (\<open>requested\<close>); after the buyer cancels, the property is \<open>available\<close> and the
  replay still gives \<open>requested\<close>; after the seller accepts instead, the property is
  \<open>sold\<close> and the replay still gives \<open>requested\<close>.
\<close>

theorem history_misses_cancel_and_respond:
  "perform (CreateRequest (Some 20) (Some 1) (Some ''hello'')) listed = requested
   \<and> replay_history 1 Available (property_history requested) = Requested
   \<and> select_property (Some 1) (properties requested)
       = Some \<lparr>prop_id = 1, prop_seller_id = 10, prop_status = Requested\<rparr>
   \<and> snd (cancel_request (Some 1) (Some 20) requested) = Inr True
   \<and> select_property (Some 1) (properties (perform (CancelRequest (Some 1) (Some 20)) requested))
       = Some \<lparr>prop_id = 1, prop_seller_id = 10, prop_status = Available\<rparr>
   \<and> replay_history 1 Available
        (property_history (perform (CancelRequest (Some 1) (Some 20)) requested)) = Requested
   \<and> snd (respond_to_request (Some 1) (Some 10) (Some Accepted) requested) = Inr True
   \<and> select_property (Some 1)
        (properties (perform (RespondToRequest (Some 1) (Some 10) (Some Accepted)) requested))
       = Some \<lparr>prop_id = 1, prop_seller_id = 10, prop_status = Sold\<rparr>
   \<and> replay_history 1 Available
        (property_history (perform (RespondToRequest (Some 1) (Some 10) (Some Accepted)) requested))
       = Requested"
proof -
  have replay: "replay_history 1 Available (property_history requested) = Requested"
    by (simp add: requested_def replay_history_def recorded_status_def)
  have sel: "select_request (Some 1) (requests requested) =
     Some \<lparr>req_id = 1, req_buyer_id = 20, req_property_id = 1, req_seller_id = 10,
           req_message = Some ''hello'', req_status = Pending\<rparr>"
    by (simp add: requested_def select_request_def)
  have props: "properties requested =
     [\<lparr>prop_id = 1, prop_seller_id = 10, prop_status = Requested\<rparr>,
      \<lparr>prop_id = 2, prop_seller_id = 10, prop_status = Available\<rparr>]"
    by (simp add: requested_def)
  show ?thesis
    using replay
    by (simp del: One_nat_def
        add: create_request_listed cancel_request_history respond_to_request_history
        cancel_request_done [OF sel] respond_to_request_done [OF _ sel] props
        select_property_def update_property_status_def)
qed

section \<open>Direct updates under the access policies\<close>




section \<open>Errors seen by the client\<close>

text \<open>
  Claim C9 says that the client functions surface every failure of the request functions
  as a typed error that tells its kind. \<open>createRequest\<close> has classes for two kinds only:
  a missing property and a self-request come back as the generic \<open>Error\<close> with the
  message of the exception; \<open>cancelRequest\<close> wraps every failure in the generic
  \<open>Error\<close>.
\<close>

theorem untyped_client_error_counterexample:
  "snd (create_request (Some 20) (Some 99) None listed) = Inl property_not_found
   \<and> snd (createRequest 20 99 None listed) = Inl (Error ''Property not found'')
   \<and> \<not> typed_error (Error ''Property not found'')
   \<and> snd (create_request (Some 10) (Some 1) None listed) = Inl self_request_forbidden
   \<and> snd (createRequest 10 1 None listed)
       = Inl (Error ''Sellers cannot request their own properties'')
   \<and> snd (cancel_request (Some 1) (Some 30) requested) = Inl only_buyer_can_cancel
   \<and> snd (cancelRequest 1 30 requested) = Inl (Error ''Only the buyer can cancel their request'')
   \<and> snd (cancel_request (Some 99) (Some 20) requested) = Inl request_not_found
   \<and> snd (cancelRequest 99 20 requested) = Inl (Error ''Request not found'')"
  by (simp add: createRequest_def cancelRequest_def supabase_rpc_def create_request_cases
      cancel_request_cases listed_def requested_def select_property_def select_request_def
      js_or_null_def js_or_def createRequest_catch_def property_not_found_def
      self_request_forbidden_def only_buyer_can_cancel_def request_not_found_def)

text \<open>
  Claim C9, amended. \<open>createRequest\<close> turns SQLSTATE \<open>P0001\<close> into
  \<open>PropertyNotAvailableError\<close> and \<open>23505\<close> into \<open>ActivePendingRequestError\<close>; every other
  failure of \<open>create_request\<close> becomes the generic \<open>Error\<close> carrying the message of the
  exception. \<open>cancelRequest\<close> turns every failure of \<open>cancel_request\<close> into the generic
  \<open>Error\<close> carrying the message of the exception. Neither function checks its
  parameters: the call always reaches the request function, with the message as given
  (an empty message as \<open>NULL\<close>), and a result is passed on unchanged.
\<close>

theorem client_error_mapping:
  "(\<forall>e. snd (create_request (Some b) (Some p) (js_or_null m) s) = Inl e \<longrightarrow>
        snd (createRequest b p m s) =
          Inl (if errcode e = ''P0001'' then PropertyNotAvailableError
               else if errcode e = ''23505'' then ActivePendingRequestError
                 ''You have an active pending request. Please wait for it to be processed.''
               else Error (errmsg e)))
   \<and> (\<forall>R. snd (create_request (Some b) (Some p) (js_or_null m) s) = Inr R \<longrightarrow>
        snd (createRequest b p m s) = Inr R)
   \<and> fst (createRequest b p m s) = fst (create_request (Some b) (Some p) (js_or_null m) s)
   \<and> (\<forall>e. snd (cancel_request (Some r) (Some u) s) = Inl e \<longrightarrow>
        snd (cancelRequest r u s) = Inl (Error (errmsg e)))
   \<and> (\<forall>v. snd (cancel_request (Some r) (Some u) s) = Inr v \<longrightarrow>
        snd (cancelRequest r u s) = Inr v)
   \<and> fst (cancelRequest r u s) = fst (cancel_request (Some r) (Some u) s)"
proof (intro conjI allI impI)
  fix e
  assume f: "snd (create_request (Some b) (Some p) (js_or_null m) s) = Inl e"
  from createRequest_of_exception [OF create_request_exceptions [OF f]] f
  show "snd (createRequest b p m s) =
          Inl (if errcode e = ''P0001'' then PropertyNotAvailableError
               else if errcode e = ''23505'' then ActivePendingRequestError
                 ''You have an active pending request. Please wait for it to be processed.''
               else Error (errmsg e))"
    by (simp add: createRequest_def supabase_rpc_failure)
next
  fix R
  assume "snd (create_request (Some b) (Some p) (js_or_null m) s) = Inr R"
  then show "snd (createRequest b p m s) = Inr R"
    by (simp add: createRequest_def supabase_rpc_success)
next
  show "fst (createRequest b p m s) = fst (create_request (Some b) (Some p) (js_or_null m) s)"
    by (rule createRequest_store)
next
  fix e
  assume f: "snd (cancel_request (Some r) (Some u) s) = Inl e"
  from cancelRequest_of_exception [OF cancel_request_exceptions [OF f]] f
  show "snd (cancelRequest r u s) = Inl (Error (errmsg e))"
    by (simp add: cancelRequest_def supabase_rpc_failure)
next
  fix v
  assume "snd (cancel_request (Some r) (Some u) s) = Inr v"
  then show "snd (cancelRequest r u s) = Inr v"
    by (simp add: cancelRequest_def supabase_rpc_success)
next
  show "fst (cancelRequest r u s) = fst (cancel_request (Some r) (Some u) s)"
    by (rule cancelRequest_store)
qed

theorem client_error_mapping_witness:
  "snd (create_request (Some 20) (Some 1) (js_or_null None) requested)
     = Inl (property_not_available Requested)
   \<and> snd (createRequest 20 1 None requested) = Inl PropertyNotAvailableError
   \<and> snd (cancel_request (Some 1) (Some 30) requested) = Inl only_buyer_can_cancel
   \<and> snd (cancelRequest 1 30 requested) = Inl (Error ''Only the buyer can cancel their request'')"
proof -
  have a: "snd (create_request (Some 20) (Some 1) (js_or_null None) requested)
     = Inl (property_not_available Requested)"
    by (simp add: create_request_cases requested_def select_property_def js_or_null_def)
  have b: "snd (cancel_request (Some 1) (Some 30) requested) = Inl only_buyer_can_cancel"
    by (simp add: cancel_request_cases requested_def select_request_def)
  note t = client_error_mapping [of 20 1 None requested 1 30]
  from t a have c: "snd (createRequest 20 1 None requested) = Inl PropertyNotAvailableError"
    by (simp add: property_not_available_def)
  from t b have d: "snd (cancelRequest 1 30 requested)
      = Inl (Error ''Only the buyer can cancel their request'')"
    by (simp add: only_buyer_can_cancel_def)
  from a b c d show ?thesis by simp
qed

end
